theory Spec2Isabelle
  imports Complex_Main
begin

section \<open>Scalars\<close>

text \<open>
  The notebook computes with binary64 numbers. A number is finite, a signed zero, an
  infinity or NaN: \<open>Fin 0\<close> is \<open>+0.0\<close>, \<open>NZero\<close> is \<open>-0.0\<close>, and \<open>Fin r\<close> with \<open>r \<noteq> 0\<close> is the
  finite number \<open>r\<close>. The arithmetic on finite numbers is the exact one of the reals:
  rounding, overflow and underflow of binary64 are not modelled. The theorems below are
  therefore about what does not depend on them: which exception is raised, where NaN, the
  infinities and the zeros arise, the sign of a result, and the order of the computation.
\<close>

datatype fval = Fin real | NZero | PInf | NInf | NaN

text \<open>
  A scalar is a Python number (a \<^verbatim>\<open>float\<close>, or an \<^verbatim>\<open>int\<close> such as the literals \<^verbatim>\<open>0\<close> and
  \<^verbatim>\<open>3\<close>) or a numpy \<^verbatim>\<open>float64\<close>. The two kinds differ in the division by zero: Python raises
  \<^verbatim>\<open>ZeroDivisionError\<close>, numpy follows IEEE 754 and returns an infinity or NaN (with a
  warning, not an exception). An operation with a numpy operand is numpy's and returns a
  numpy scalar.
\<close>

datatype scalar = Py fval | Np fval

text \<open>The exceptions the three functions can raise.\<close>

datatype error = UnboundLocalError | ZeroDivisionError | ValueError

fun val :: "scalar \<Rightarrow> fval" where
  "val (Py v) = v"
| "val (Np v) = v"

fun is_np :: "scalar \<Rightarrow> bool" where
  "is_np (Py v) = False"
| "is_np (Np v) = True"

text \<open>The kind of the result of a binary operation on \<open>a\<close> and \<open>b\<close>.\<close>

definition wrap :: "scalar \<Rightarrow> scalar \<Rightarrow> fval \<Rightarrow> scalar" where
  "wrap a b v = (if is_np a \<or> is_np b then Np v else Py v)"

fun is_zero :: "fval \<Rightarrow> bool" where
  "is_zero (Fin a) = (a = 0)"
| "is_zero NZero = True"
| "is_zero v = False"

fun is_inf :: "fval \<Rightarrow> bool" where
  "is_inf PInf = True"
| "is_inf NInf = True"
| "is_inf v = False"

text \<open>The sign bit.\<close>

fun fsign :: "fval \<Rightarrow> bool" where
  "fsign (Fin a) = (a < 0)"
| "fsign NZero = True"
| "fsign NInf = True"
| "fsign v = False"

fun fin_val :: "fval \<Rightarrow> real" where
  "fin_val (Fin a) = a"
| "fin_val v = 0"

text \<open>
  Addition: NaN is absorbing, opposite infinities are invalid, and a zero sum is \<open>+0.0\<close>
  unless both terms are \<open>-0.0\<close>.
\<close>

fun fadd :: "fval \<Rightarrow> fval \<Rightarrow> fval" where
  "fadd NaN b = NaN"
| "fadd a NaN = NaN"
| "fadd PInf NInf = NaN"
| "fadd NInf PInf = NaN"
| "fadd PInf b = PInf"
| "fadd a PInf = PInf"
| "fadd NInf b = NInf"
| "fadd a NInf = NInf"
| "fadd NZero b = b"
| "fadd a NZero = a"
| "fadd (Fin a) (Fin b) = Fin (a + b)"

fun fneg :: "fval \<Rightarrow> fval" where
  "fneg (Fin a) = (if a = 0 then NZero else Fin (- a))"
| "fneg NZero = Fin 0"
| "fneg PInf = NInf"
| "fneg NInf = PInf"
| "fneg NaN = NaN"

definition fsub :: "fval \<Rightarrow> fval \<Rightarrow> fval" where
  "fsub a b = fadd a (fneg b)"

text \<open>
  IEEE division: \<open>0 / 0\<close> and \<open>\<infinity> / \<infinity>\<close> are NaN; otherwise the sign is the product of the
  signs, a division by zero or of an infinity is an infinity, and a division of zero or by
  an infinity is a zero.
\<close>

definition fdiv :: "fval \<Rightarrow> fval \<Rightarrow> fval" where
  "fdiv a b =
     (if a = NaN \<or> b = NaN then NaN
      else if is_inf a \<and> is_inf b then NaN
      else if is_zero a \<and> is_zero b then NaN
      else if is_inf a \<or> is_zero b then (if fsign a \<noteq> fsign b then NInf else PInf)
      else if is_zero a \<or> is_inf b then (if fsign a \<noteq> fsign b then NZero else Fin 0)
      else Fin (fin_val a / fin_val b))"

text \<open>
  The comparison \<^verbatim>\<open>a < b\<close>: false as soon as one side is NaN; the two zeros are equal.
\<close>

fun level :: "fval \<Rightarrow> int" where
  "level NInf = - 1"
| "level PInf = 1"
| "level v = 0"

definition fless :: "fval \<Rightarrow> fval \<Rightarrow> bool" where
  "fless a b =
     (a \<noteq> NaN \<and> b \<noteq> NaN \<and>
      (level a < level b \<or> (level a = level b \<and> fin_val a < fin_val b)))"

text \<open>The operators \<^verbatim>\<open>+\<close>, \<^verbatim>\<open>-\<close> and \<^verbatim>\<open>/\<close> on scalars. Only the division can raise.\<close>

definition sadd :: "scalar \<Rightarrow> scalar \<Rightarrow> scalar" where
  "sadd a b = wrap a b (fadd (val a) (val b))"

definition ssub :: "scalar \<Rightarrow> scalar \<Rightarrow> scalar" where
  "ssub a b = wrap a b (fsub (val a) (val b))"

definition sdiv :: "scalar \<Rightarrow> scalar \<Rightarrow> error + scalar" where
  "sdiv a b =
     (if \<not> is_np a \<and> \<not> is_np b \<and> is_zero (val b) then Inl ZeroDivisionError
      else Inr (wrap a b (fdiv (val a) (val b))))"

text \<open>
  Python's builtin \<^verbatim>\<open>max(a, b)\<close> keeps its first argument unless the second one is
  strictly greater, so \<^verbatim>\<open>max(nan, 0)\<close> is NaN.
\<close>

definition py_max :: "scalar \<Rightarrow> scalar \<Rightarrow> scalar" where
  "py_max a b = (if fless (val a) (val b) then b else a)"

text \<open>
  \<^verbatim>\<open>math.sqrt\<close> returns a Python float: a \<^verbatim>\<open>ValueError\<close> (math domain error) below zero;
  NaN, the positive infinity and the zeros are passed through.
\<close>

fun sqrt_fval :: "fval \<Rightarrow> error + fval" where
  "sqrt_fval (Fin a) = (if a < 0 then Inl ValueError else Inr (Fin (sqrt a)))"
| "sqrt_fval NZero = Inr NZero"
| "sqrt_fval PInf = Inr PInf"
| "sqrt_fval NInf = Inl ValueError"
| "sqrt_fval NaN = Inr NaN"

definition py_sqrt :: "scalar \<Rightarrow> error + scalar" where
  "py_sqrt a = (case sqrt_fval (val a) of Inl e \<Rightarrow> Inl e | Inr v \<Rightarrow> Inr (Py v))"

section \<open>Signals\<close>

text \<open>
  A DataFrame with the columns \<^verbatim>\<open>x\<close>, \<^verbatim>\<open>y\<close>, \<^verbatim>\<open>z\<close> is the list of its rows; the readings
  are finite numbers. \<^verbatim>\<open>df['x']\<close> is \<open>col_x df\<close>.
\<close>

type_synonym dataframe = "(real \<times> real \<times> real) list"

definition col_x :: "dataframe \<Rightarrow> real list" where
  "col_x df = map (\<lambda>(a, b, c). a) df"

definition col_y :: "dataframe \<Rightarrow> real list" where
  "col_y df = map (\<lambda>(a, b, c). b) df"

definition col_z :: "dataframe \<Rightarrow> real list" where
  "col_z df = map (\<lambda>(a, b, c). c) df"

text \<open>
  \<^verbatim>\<open>Series.var()\<close> with its default \<^verbatim>\<open>ddof=1\<close>, as pandas computes it. For an empty column
  it returns the Python float \<^verbatim>\<open>nan\<close> at once. Otherwise the result is a numpy scalar: the
  mean first, then the squared distances to it, summed and divided by \<open>count - ddof\<close>; with
  a single observation that divisor is replaced by NaN, and so is the result.
\<close>

definition series_mean :: "real list \<Rightarrow> real" where
  "series_mean xs = sum_list xs / real (length xs)"

definition series_var :: "real list \<Rightarrow> scalar" where
  "series_var xs =
     (if xs = [] then Py NaN
      else if length xs \<le> 1 then Np NaN
      else Np (Fin (sum_list (map (\<lambda>v. (series_mean xs - v)\<^sup>2) xs) / (real (length xs) - 1))))"

text \<open>
  The values a variance computed in binary64 can take: NaN, \<open>+\<infinity>\<close> (after an overflow), \<open>+0.0\<close>
  or a positive number.
\<close>

fun variance_value :: "fval \<Rightarrow> bool" where
  "variance_value (Fin a) = (0 \<le> a)"
| "variance_value PInf = True"
| "variance_value NaN = True"
| "variance_value v = False"

text \<open>
  The positional slice \<^verbatim>\<open>df.iloc[start:end]\<close>: a negative bound counts from the end, and
  both bounds are clipped to the frame.
\<close>

definition slice_bound :: "int \<Rightarrow> nat \<Rightarrow> nat" where
  "slice_bound i n = (if i < 0 then nat (max (i + int n) 0) else min (nat i) n)"

definition iloc :: "dataframe \<Rightarrow> int \<Rightarrow> int \<Rightarrow> dataframe" where
  "iloc df start end =
     (let s = slice_bound start (length df); e = slice_bound end (length df)
      in take (e - s) (drop s df))"

section \<open>The three functions of the notebook\<close>

text \<open>
  \<^verbatim>\<open>getNoiseValue(df, mode='author')\<close>. The local \<^verbatim>\<open>sysnoise\<close> is unbound until one of the
  two \<^verbatim>\<open>if\<close> statements assigns it; \<^verbatim>\<open>return sysnoise\<close> on an unbound local raises
  \<^verbatim>\<open>UnboundLocalError\<close>.
\<close>

definition getNoiseValue :: "dataframe \<Rightarrow> string \<Rightarrow> error + scalar" where
  "getNoiseValue df mode =
     (let sysnoise = None;
          sysnoise = (if mode = ''paper''
                      then Some (sadd (sadd (series_var (col_x df)) (series_var (col_y df)))
                                      (series_var (col_z df)))
                      else sysnoise)
      in if mode = ''bai''
         then sdiv (sadd (sadd (series_var (col_x df)) (series_var (col_y df)))
                         (series_var (col_z df))) (Py (Fin 3))
         else (case sysnoise of None \<Rightarrow> Inl UnboundLocalError | Some v \<Rightarrow> Inr v))"

text \<open>The call without a mode: the default value of the parameter is \<^verbatim>\<open>'author'\<close>.\<close>

definition getNoiseValue_default :: "dataframe \<Rightarrow> error + scalar" where
  "getNoiseValue_default df = getNoiseValue df ''author''"

text \<open>
  The body of \<^verbatim>\<open>getActivityIndex\<close> on the values \<open>vx\<close>, \<open>vy\<close>, \<open>vz\<close> that the three calls of
  \<^verbatim>\<open>var()\<close> return. The statements run in the order of the source, so the first division
  that raises ends the call.
\<close>

definition activity_index :: "scalar \<Rightarrow> scalar \<Rightarrow> scalar \<Rightarrow> scalar \<Rightarrow> bool \<Rightarrow> error + scalar" where
  "activity_index vx vy vz noise rel =
     (case (if rel = False
            then Inr (ssub vx noise, ssub vy noise, ssub vz noise)
            else (case sdiv (ssub vx noise) noise of Inl e \<Rightarrow> Inl e | Inr x \<Rightarrow>
                 (case sdiv (ssub vy noise) noise of Inl e \<Rightarrow> Inl e | Inr y \<Rightarrow>
                 (case sdiv (ssub vz noise) noise of Inl e \<Rightarrow> Inl e | Inr z \<Rightarrow>
                    Inr (x, y, z))))) of
        Inl e \<Rightarrow> Inl e
      | Inr (x, y, z) \<Rightarrow>
          (case sdiv (sadd (sadd x y) z) (Py (Fin 3)) of
             Inl e \<Rightarrow> Inl e
           | Inr avg \<Rightarrow> (let max_value = py_max avg (Py (Fin 0)) in py_sqrt max_value)))"

text \<open>\<^verbatim>\<open>getActivityIndex(df, noise, rel=False)\<close>.\<close>

definition getActivityIndex :: "dataframe \<Rightarrow> scalar \<Rightarrow> bool \<Rightarrow> error + scalar" where
  "getActivityIndex df noise rel =
     activity_index (series_var (col_x df)) (series_var (col_y df)) (series_var (col_z df))
       noise rel"

text \<open>
  The loop of \<^verbatim>\<open>getSignalActivityIndex\<close> over \<^verbatim>\<open>range(nchunks)\<close>, with the accumulator
  \<^verbatim>\<open>ai_signal\<close>; an exception of the scorer leaves the loop.
\<close>

fun chunk_loop ::
  "dataframe \<Rightarrow> scalar \<Rightarrow> int \<Rightarrow> bool \<Rightarrow> int list \<Rightarrow> scalar \<Rightarrow> error + scalar" where
  "chunk_loop df noise freq rel [] ai_signal = Inr ai_signal"
| "chunk_loop df noise freq rel (i # rest) ai_signal =
     (let start = i * freq; end = i * freq + freq
      in case getActivityIndex (iloc df start end) noise rel of
           Inl e \<Rightarrow> Inl e
         | Inr ai \<Rightarrow> chunk_loop df noise freq rel rest (sadd ai_signal ai))"

text \<open>
  \<^verbatim>\<open>getSignalActivityIndex(df, noise, freq, rel=False)\<close>. \<^verbatim>\<open>//\<close> is the floor division of
  Python's integers and raises \<^verbatim>\<open>ZeroDivisionError\<close> for \<open>freq = 0\<close>; \<^verbatim>\<open>range(n)\<close> is
  empty for \<open>n \<le> 0\<close>. The accumulator starts as the integer \<^verbatim>\<open>0\<close>.
\<close>

definition getSignalActivityIndex ::
  "dataframe \<Rightarrow> scalar \<Rightarrow> int \<Rightarrow> bool \<Rightarrow> error + (scalar \<times> int)" where
  "getSignalActivityIndex df noise freq rel =
     (if freq = 0 then Inl ZeroDivisionError
      else
        let nchunks = int (length df) div freq
        in case chunk_loop df noise freq rel [0..nchunks - 1] (Py (Fin 0)) of
             Inl e \<Rightarrow> Inl e
           | Inr ai_signal \<Rightarrow> Inr (ai_signal, int (length df) div freq))"

section \<open>The spec's notions\<close>

text \<open>
  The spec's windows of a signal: for \<open>i\<close> from \<open>0\<close> to \<open>floor (len / freq) - 1\<close>, the
  contiguous slice of the samples \<open>[i * freq, i * freq + freq)\<close>.
\<close>

definition spec_windows :: "dataframe \<Rightarrow> nat \<Rightarrow> dataframe list" where
  "spec_windows signal freq =
     map (\<lambda>i. take freq (drop (i * freq) signal)) [0..<length signal div freq]"

section \<open>Auxiliary facts\<close>

subsection \<open>Variance\<close>

lemma length_cols [simp]:
  "length (col_x df) = length df" "length (col_y df) = length df" "length (col_z df) = length df"
  by (simp_all add: col_x_def col_y_def col_z_def)

lemma cols_Nil [simp]:
  "col_x df = [] \<longleftrightarrow> df = []" "col_y df = [] \<longleftrightarrow> df = []" "col_z df = [] \<longleftrightarrow> df = []"
  by (simp_all add: col_x_def col_y_def col_z_def)

lemma series_var_range:
  "val (series_var xs) = NaN \<or> (\<exists>r. val (series_var xs) = Fin r \<and> 0 \<le> r)"
  by (auto simp: series_var_def intro!: divide_nonneg_nonneg sum_list_nonneg)

lemma series_var_np: "is_np (series_var xs) \<longleftrightarrow> xs \<noteq> []"
  by (simp add: series_var_def)


subsection \<open>The scorer\<close>

lemma val_wrap [simp]: "val (wrap a b v) = v"
  by (simp add: wrap_def)

lemma is_np_wrap [simp]: "is_np (wrap a b v) \<longleftrightarrow> is_np a \<or> is_np b"
  by (simp add: wrap_def)

lemma py_sqrt_max:
  "\<exists>v. py_sqrt (py_max a (Py (Fin 0))) = Inr (Py v) \<and> \<not> fless v (Fin 0) \<and>
       (v = NaN \<or> is_zero v \<or> fless (Fin 0) v)"
  by (cases "val a") (auto simp: py_max_def py_sqrt_def fless_def)

lemma sdiv_three: "sdiv a (Py (Fin 3)) = Inr (wrap a (Py (Fin 3)) (fdiv (val a) (Fin 3)))"
  by (simp add: sdiv_def)

lemma sdiv_np: "is_np a \<Longrightarrow> sdiv a b = Inr (Np (fdiv (val a) (val b)))"
  by (simp add: sdiv_def wrap_def)

lemma activity_index_nonneg:
  "activity_index vx vy vz noise rel = Inr v \<Longrightarrow>
   \<not> fless (val v) (Fin 0) \<and> (val v = NaN \<or> is_zero (val v) \<or> fless (Fin 0) (val v))"
proof -
  assume res: "activity_index vx vy vz noise rel = Inr v"
  then obtain avg where "py_sqrt (py_max avg (Py (Fin 0))) = Inr v"
    by (auto simp: activity_index_def sdiv_three split: if_splits sum.splits)
  then show ?thesis
    using py_sqrt_max [of avg] by auto
qed

lemma activity_index_returns:
  "is_np vx \<Longrightarrow> is_np vy \<Longrightarrow> is_np vz \<Longrightarrow> \<exists>v. activity_index vx vy vz noise rel = Inr v"
proof -
  assume np: "is_np vx" "is_np vy" "is_np vz"
  have "\<exists>v. py_sqrt (py_max avg (Py (Fin 0))) = Inr v" for avg
    using py_sqrt_max [of avg] by blast
  then show ?thesis
    by (simp add: activity_index_def sdiv_three sdiv_np ssub_def np)
qed

lemma getActivityIndex_returns:
  "w \<noteq> [] \<Longrightarrow> \<exists>v. getActivityIndex w noise rel = Inr v"
  unfolding getActivityIndex_def
  by (rule activity_index_returns) (simp_all add: series_var_np)

subsection \<open>The loop over the chunks\<close>

lemma iloc_chunk:
  "0 \<le> i \<Longrightarrow> 0 \<le> freq \<Longrightarrow>
   iloc df (i * freq) (i * freq + freq) = take (nat freq) (drop (nat i * nat freq) df)"
proof -
  assume i: "0 \<le> i" and f: "0 \<le> freq"
  have s: "nat (i * freq) = nat i * nat freq"
    using i f by (simp add: nat_mult_distrib)
  have e: "nat (i * freq + freq) = nat i * nat freq + nat freq"
    using i f by (simp add: nat_add_distrib nat_mult_distrib)
  have nn: "\<not> i * freq < 0" "\<not> i * freq + freq < 0"
    using i f by (simp_all add: not_less)
  show ?thesis
    unfolding iloc_def slice_bound_def Let_def using nn
    by (simp add: s e min_def)
qed

lemma spec_windows_nonempty: "0 < f \<Longrightarrow> w \<in> set (spec_windows df f) \<Longrightarrow> length w = f"
proof -
  assume f: "0 < f" and w: "w \<in> set (spec_windows df f)"
  then obtain i where i: "i < length df div f" and w': "w = take f (drop (i * f) df)"
    by (auto simp: spec_windows_def)
  have "Suc i \<le> length df div f" using i by simp
  then have "Suc i * f \<le> length df div f * f" by (rule mult_le_mono1)
  also have "\<dots> \<le> length df" by simp
  finally have "f \<le> length df - i * f" by simp
  then show ?thesis by (simp add: w' min_absorb2)
qed

lemma chunk_loop_sum:
  "\<forall>i \<in> set ixs. iloc df (i * freq) (i * freq + freq) \<noteq> [] \<Longrightarrow>
   \<exists>scores. map (\<lambda>i. getActivityIndex (iloc df (i * freq) (i * freq + freq)) noise rel) ixs
              = map Inr scores \<and>
            chunk_loop df noise freq rel ixs acc = Inr (foldl sadd acc scores)"
proof (induction ixs arbitrary: acc)
  case Nil
  then show ?case by simp
next
  case (Cons i rest)
  have "iloc df (i * freq) (i * freq + freq) \<noteq> []"
    using Cons.prems by simp
  then obtain v where
    v: "getActivityIndex (iloc df (i * freq) (i * freq + freq)) noise rel = Inr v"
    using getActivityIndex_returns by blast
  have "\<forall>i \<in> set rest. iloc df (i * freq) (i * freq + freq) \<noteq> []"
    using Cons.prems by simp
  then obtain scores where
    "map (\<lambda>i. getActivityIndex (iloc df (i * freq) (i * freq + freq)) noise rel) rest
       = map Inr scores"
    "chunk_loop df noise freq rel rest (sadd acc v) = Inr (foldl sadd (sadd acc v) scores)"
    using Cons.IH [of "sadd acc v"] by blast
  then have
    "map (\<lambda>i. getActivityIndex (iloc df (i * freq) (i * freq + freq)) noise rel) (i # rest)
       = map Inr (v # scores) \<and>
     chunk_loop df noise freq rel (i # rest) acc = Inr (foldl sadd acc (v # scores))"
    using v by simp
  then show ?case by blast
qed

lemma range_upto: "[0..int n - 1] = map int [0..<n]"
  by (induction n) (simp_all add: upto_rec2)

lemma chunk_windows:
  "0 < freq \<Longrightarrow>
   map (\<lambda>i. iloc df (i * freq) (i * freq + freq)) [0..int (length df) div freq - 1]
   = spec_windows df (nat freq)"
proof -
  assume f: "0 < freq"
  have d: "int (length df) div freq = int (length df div nat freq)"
    using f by (simp add: zdiv_int)
  show ?thesis
    unfolding d range_upto spec_windows_def using f
    by (simp add: iloc_chunk comp_def)
qed

lemma spec_windows_take:
  "spec_windows (take (length df div f * f) df) f = spec_windows df f"
proof (cases "f = 0")
  case True
  then show ?thesis by (simp add: spec_windows_def)
next
  case False
  have le: "length df div f * f \<le> length df" by simp
  have len: "length (take (length df div f * f) df) div f = length df div f"
    using False le by (simp add: min_absorb2)
  have "take f (drop (i * f) (take (length df div f * f) df)) = take f (drop (i * f) df)"
    if "i < length df div f" for i
  proof -
    have "Suc i \<le> length df div f" using that by simp
    then have "Suc i * f \<le> length df div f * f" by (rule mult_le_mono1)
    then have "f \<le> length df div f * f - i * f" by simp
    then show ?thesis by (simp add: drop_take min_absorb1)
  qed
  then show ?thesis unfolding spec_windows_def len by simp
qed

lemma getSignalActivityIndex_sum:
  "0 < freq \<Longrightarrow>
   \<exists>scores.
     map (\<lambda>w. getActivityIndex w noise rel) (spec_windows df (nat freq)) = map Inr scores \<and>
     getSignalActivityIndex df noise freq rel
       = Inr (foldl sadd (Py (Fin 0)) scores, int (length df div nat freq))"
proof -
  assume f: "0 < freq"
  let ?ixs = "[0..int (length df) div freq - 1]"
  have d: "int (length df) div freq = int (length df div nat freq)"
    using f by (simp add: zdiv_int)
  have win: "map (\<lambda>i. iloc df (i * freq) (i * freq + freq)) ?ixs = spec_windows df (nat freq)"
    using f by (rule chunk_windows)
  have "\<forall>i \<in> set ?ixs. iloc df (i * freq) (i * freq + freq) \<noteq> []"
  proof
    fix i assume "i \<in> set ?ixs"
    then have "iloc df (i * freq) (i * freq + freq)
        \<in> set (map (\<lambda>i. iloc df (i * freq) (i * freq + freq)) ?ixs)"
      by simp
    then have "length (iloc df (i * freq) (i * freq + freq)) = nat freq"
      unfolding win using f spec_windows_nonempty [of "nat freq"] by simp
    then show "iloc df (i * freq) (i * freq + freq) \<noteq> []"
      using f by auto
  qed
  then obtain scores where
    m: "map (\<lambda>i. getActivityIndex (iloc df (i * freq) (i * freq + freq)) noise rel) ?ixs
          = map Inr scores"
    and c: "chunk_loop df noise freq rel ?ixs (Py (Fin 0)) = Inr (foldl sadd (Py (Fin 0)) scores)"
    using chunk_loop_sum [of ?ixs df freq noise rel "Py (Fin 0)"] by blast
  have r: "getSignalActivityIndex df noise freq rel
     = Inr (foldl sadd (Py (Fin 0)) scores, int (length df div nat freq))"
    using f c by (simp add: getSignalActivityIndex_def d)
  have "map (\<lambda>w. getActivityIndex w noise rel) (spec_windows df (nat freq))
      = map (\<lambda>i. getActivityIndex (iloc df (i * freq) (i * freq + freq)) noise rel) ?ixs"
    unfolding win [symmetric] by (simp add: comp_def)
  then show ?thesis using m r by auto
qed

subsection \<open>A zero noise in relative mode\<close>

lemma deviation_zero_noise:
  "is_zero n \<Longrightarrow> variance_value v \<Longrightarrow>
   fdiv (fsub v n) n
     = (if fless (Fin 0) v then (if n = NZero then NInf else PInf) else NaN)"
  by (cases v; cases n) (auto simp: fsub_def fdiv_def fless_def)

lemma sdiv_zero_noise:
  "is_zero (val noise) \<Longrightarrow> variance_value (val u) \<Longrightarrow>
   sdiv (ssub u noise) noise
     = (if \<not> is_np noise \<and> \<not> is_np u then Inl ZeroDivisionError
        else Inr (Np (if fless (Fin 0) (val u)
                      then (if val noise = NZero then NInf else PInf) else NaN)))"
  by (simp add: sdiv_def ssub_def deviation_zero_noise wrap_def)

lemma sdiv_sum_three:
  "sdiv (sadd (sadd (Np a) (Np b)) (Np c)) (Py (Fin 3)) = Inr (Np (fdiv (fadd (fadd a b) c) (Fin 3)))"
  by (simp add: sdiv_def sadd_def wrap_def)

lemma tail_PInf: "py_sqrt (py_max (Np PInf) (Py (Fin 0))) = Inr (Py PInf)"
  by (simp add: py_max_def py_sqrt_def fless_def)

lemma tail_NInf: "py_sqrt (py_max (Np NInf) (Py (Fin 0))) = Inr (Py (Fin 0))"
  by (simp add: py_max_def py_sqrt_def fless_def)

lemma tail_NaN: "py_sqrt (py_max (Np NaN) (Py (Fin 0))) = Inr (Py NaN)"
  by (simp add: py_max_def py_sqrt_def fless_def)

lemma fdiv_three: "fdiv PInf (Fin 3) = PInf" "fdiv NInf (Fin 3) = NInf" "fdiv NaN (Fin 3) = NaN"
  by (simp_all add: fdiv_def)

lemma activity_index_zero_noise:
  assumes z: "is_zero (val noise)"
    and v: "variance_value (val vx)" "variance_value (val vy)" "variance_value (val vz)"
  shows "activity_index vx vy vz noise True =
     (if \<not> is_np noise \<and> (\<not> is_np vx \<or> \<not> is_np vy \<or> \<not> is_np vz)
      then Inl ZeroDivisionError
      else Inr (Py (if fless (Fin 0) (val vx) \<and> fless (Fin 0) (val vy) \<and> fless (Fin 0) (val vz)
                    then (if val noise = NZero then Fin 0 else PInf)
                    else NaN)))"
proof (cases "\<not> is_np noise \<and> (\<not> is_np vx \<or> \<not> is_np vy \<or> \<not> is_np vz)")
  case True
  then show ?thesis
    by (auto simp: activity_index_def sdiv_zero_noise [OF z] v)
next
  case False
  let ?d = "\<lambda>u. if fless (Fin 0) (val u)
                 then (if val noise = NZero then NInf else PInf) else NaN"
  have dev: "sdiv (ssub u noise) noise = Inr (Np (?d u))"
    if "variance_value (val u)" and "is_np noise \<or> is_np u" for u
    using sdiv_zero_noise [OF z that(1)] that(2) by auto
  have x: "sdiv (ssub vx noise) noise = Inr (Np (?d vx))"
    using False by (intro dev v) blast
  have y: "sdiv (ssub vy noise) noise = Inr (Np (?d vy))"
    using False by (intro dev v) blast
  have z': "sdiv (ssub vz noise) noise = Inr (Np (?d vz))"
    using False by (intro dev v) blast
  have "activity_index vx vy vz noise True
      = (case sdiv (sadd (sadd (Np (?d vx)) (Np (?d vy))) (Np (?d vz))) (Py (Fin 3)) of
           Inl e \<Rightarrow> Inl e
         | Inr avg \<Rightarrow> py_sqrt (py_max avg (Py (Fin 0))))"
    by (simp only: activity_index_def x y z' Let_def simp_thms if_False sum.case prod.case)
  also have "\<dots> = py_sqrt (py_max (Np (fdiv (fadd (fadd (?d vx) (?d vy)) (?d vz)) (Fin 3)))
                              (Py (Fin 0)))"
    by (simp only: sdiv_sum_three sum.case)
  also have "\<dots> = Inr (Py (if fless (Fin 0) (val vx) \<and> fless (Fin 0) (val vy) \<and>
                                fless (Fin 0) (val vz)
                             then (if val noise = NZero then Fin 0 else PInf) else NaN))"
    by (simp add: fdiv_three tail_PInf tail_NInf tail_NaN)
  finally show ?thesis using False by simp
qed

subsection \<open>Sums of variances\<close>

lemma series_var_value: "variance_value (val (series_var xs))"
  using series_var_range [of xs] by auto




lemma fadd_NaN [simp]: "fadd a NaN = NaN"
  by (cases a) simp_all

section \<open>The noise estimator\<close>

text \<open>
  C2. A mode string other than \<^verbatim>\<open>'paper'\<close> and \<^verbatim>\<open>'bai'\<close> makes \<^verbatim>\<open>getNoiseValue\<close> fail for
  every reference signal: neither branch binds \<^verbatim>\<open>sysnoise\<close>, the \<^verbatim>\<open>return\<close> raises
  \<^verbatim>\<open>UnboundLocalError\<close>, and no noise value (undefined, zero or other) is returned.
\<close>

theorem getNoiseValue_unknown_mode_fails:
  "mode \<noteq> ''paper'' \<Longrightarrow> mode \<noteq> ''bai'' \<Longrightarrow> getNoiseValue df mode = Inl UnboundLocalError"
  by (simp add: getNoiseValue_def)

theorem getNoiseValue_unknown_mode_fails_witness:
  "''mean'' \<noteq> ''paper'' \<and> ''mean'' \<noteq> ''bai'' \<and>
   getNoiseValue [(1, 2, 3), (4, 5, 6)] ''mean'' = Inl UnboundLocalError"
  using getNoiseValue_unknown_mode_fails [of "''mean''" "[(1, 2, 3), (4, 5, 6)]"] by simp

text \<open>
  C9. A call of \<^verbatim>\<open>getNoiseValue\<close> without a mode always fails: the default \<^verbatim>\<open>'author'\<close>
  selects neither branch, so \<^verbatim>\<open>sysnoise\<close> is never assigned and the call raises instead of
  returning a noise scalar, whatever the signal.
\<close>

theorem getNoiseValue_default_fails: "getNoiseValue_default df = Inl UnboundLocalError"
  by (simp add: getNoiseValue_default_def getNoiseValue_def)

theorem getNoiseValue_default_fails_witness:
  "getNoiseValue_default [(0, 0, 0), (2, 2, 2)] = Inl UnboundLocalError"
  using getNoiseValue_default_fails [of "[(0, 0, 0), (2, 2, 2)]"] by simp




section \<open>The window scorer\<close>




text \<open>
  With \<open>relative = true\<close> and \<open>noise = 0\<close> the division is one of numpy scalars: here each
  axis has the variance \<open>1 / 2\<close>, each deviation is \<open>+\<infinity>\<close>, and the scorer returns \<open>+\<infinity>\<close>
  without raising.
\<close>

theorem zero_noise_returns_inf:
  "getActivityIndex [(0, 0, 0), (1, 1, 1)] (Py (Fin 0)) True = Inr (Py PInf)"
  by (simp add: getActivityIndex_def activity_index_def series_var_def series_mean_def
      ssub_def sadd_def sdiv_def wrap_def fsub_def fdiv_def fless_def py_max_def py_sqrt_def
      col_x_def col_y_def col_z_def power2_eq_square)

text \<open>
  C1, as the code behaves. With \<open>relative = true\<close> and a zero noise (\<open>+0.0\<close> or \<open>-0.0\<close>) the
  division by zero is reported only when the window is empty and the noise is a Python
  number: \<^verbatim>\<open>var()\<close> then returns a Python float and the division raises
  \<^verbatim>\<open>ZeroDivisionError\<close>. In every other case the variances or the noise are numpy scalars and
  the call returns without raising: \<open>+\<infinity>\<close> for the noise \<open>+0.0\<close>, \<open>0.0\<close> for the noise \<open>-0.0\<close>,
  or NaN. Which of them it is depends only on the three values \<open>vx\<close>, \<open>vy\<close>, \<open>vz\<close> that
  \<^verbatim>\<open>var()\<close> returned: the infinity (or \<open>0.0\<close>) when all three are positive, NaN when one of
  them is zero or NaN.
\<close>

theorem getActivityIndex_zero_noise:
  assumes "is_zero (val noise)"
    and "variance_value (val vx)" "variance_value (val vy)" "variance_value (val vz)"
  shows "(\<exists>v. getActivityIndex w noise True =
               (if w = [] \<and> \<not> is_np noise then Inl ZeroDivisionError else Inr (Py v)) \<and>
             ((v = PInf \<and> val noise = Fin 0) \<or> v = NaN \<or> (v = Fin 0 \<and> val noise = NZero))) \<and>
         activity_index vx vy vz noise True =
           (if \<not> is_np noise \<and> (\<not> is_np vx \<or> \<not> is_np vy \<or> \<not> is_np vz)
            then Inl ZeroDivisionError
            else Inr (Py (if fless (Fin 0) (val vx) \<and> fless (Fin 0) (val vy) \<and>
                             fless (Fin 0) (val vz)
                          then (if val noise = NZero then Fin 0 else PInf)
                          else NaN)))"
proof -
  let ?sx = "series_var (col_x w)" and ?sy = "series_var (col_y w)"
    and ?sz = "series_var (col_z w)"
  let ?v = "if fless (Fin 0) (val ?sx) \<and> fless (Fin 0) (val ?sy) \<and> fless (Fin 0) (val ?sz)
            then (if val noise = NZero then Fin 0 else PInf) else NaN"
  have zero: "val noise = Fin 0 \<or> val noise = NZero"
    using assms(1) by (cases "val noise") simp_all
  have "getActivityIndex w noise True =
      (if w = [] \<and> \<not> is_np noise then Inl ZeroDivisionError else Inr (Py ?v))"
    unfolding getActivityIndex_def
    using activity_index_zero_noise [OF assms(1), of ?sx ?sy ?sz]
    by (simp add: series_var_value series_var_np)
  moreover have "(?v = PInf \<and> val noise = Fin 0) \<or> ?v = NaN \<or> (?v = Fin 0 \<and> val noise = NZero)"
    using zero by auto
  ultimately have "\<exists>v. getActivityIndex w noise True =
               (if w = [] \<and> \<not> is_np noise then Inl ZeroDivisionError else Inr (Py v)) \<and>
             ((v = PInf \<and> val noise = Fin 0) \<or> v = NaN \<or> (v = Fin 0 \<and> val noise = NZero))"
    by blast
  then show ?thesis
    using activity_index_zero_noise [OF assms] by simp
qed

theorem getActivityIndex_zero_noise_witness:
  "is_zero (val (Py NZero)) \<and> variance_value (val (Np (Fin 2))) \<and>
   variance_value (val (Np PInf)) \<and> variance_value (val (Py NaN)) \<and>
   getActivityIndex [] (Py NZero) True = Inl ZeroDivisionError \<and>
   activity_index (Np (Fin 2)) (Np (Fin 2)) (Np PInf) (Py NZero) True = Inr (Py (Fin 0)) \<and>
   activity_index (Np (Fin 2)) (Np (Fin 2)) (Np PInf) (Np (Fin 0)) True = Inr (Py PInf) \<and>
   activity_index (Py NaN) (Py NaN) (Py NaN) (Np (Fin 0)) True = Inr (Py NaN)"
  using getActivityIndex_zero_noise [of "Py NZero" "Np (Fin 2)" "Np (Fin 2)" "Np PInf" "[]"]
    getActivityIndex_zero_noise [of "Np (Fin 0)" "Np (Fin 2)" "Np (Fin 2)" "Np PInf" "[]"]
    getActivityIndex_zero_noise [of "Np (Fin 0)" "Py NaN" "Py NaN" "Py NaN" "[]"]
  by (simp add: fless_def)

text \<open>
  A value returned by the scorer can be NaN, which is not \<open>\<ge> 0\<close>: here a window of one
  sample in relative mode.
\<close>

theorem getActivityIndex_nan_result:
  "getActivityIndex [(7, 8, 9)] (Py (Fin 1)) True = Inr (Py NaN)"
  by (simp add: getActivityIndex_def activity_index_def series_var_def ssub_def sadd_def
      sdiv_def wrap_def fsub_def fdiv_def fless_def py_max_def py_sqrt_def
      col_x_def col_y_def col_z_def)

text \<open>
  C8, as far as it holds of the code. A value returned by the scorer is never negative,
  for every window, every noise scalar (the infinities and NaN included) and either value
  of the flag: the comparison \<open>v < 0\<close> is false for it, and it is NaN, a zero or positive
  (possibly \<open>+\<infinity>\<close>). It need not be \<open>\<ge> 0\<close>, because it can be NaN.
\<close>

theorem getActivityIndex_never_negative:
  "getActivityIndex w noise rel = Inr v \<Longrightarrow>
   \<not> fless (val v) (Fin 0) \<and> (val v = NaN \<or> is_zero (val v) \<or> fless (Fin 0) (val v))"
  unfolding getActivityIndex_def by (rule activity_index_nonneg)

theorem getActivityIndex_never_negative_witness:
  "getActivityIndex [(0, 0, 0), (4, 4, 4)] (Py (Fin 4)) False = Inr (Py (Fin 2)) \<and>
   \<not> fless (Fin 2) (Fin 0) \<and> fless (Fin 0) (Fin 2)"
proof -
  have res: "getActivityIndex [(0, 0, 0), (4, 4, 4)] (Py (Fin 4)) False = Inr (Py (Fin 2))"
    by (simp add: getActivityIndex_def activity_index_def series_var_def series_mean_def
        ssub_def sadd_def sdiv_def wrap_def fsub_def fdiv_def fless_def py_max_def py_sqrt_def
        col_x_def col_y_def col_z_def)
  show ?thesis
    using res getActivityIndex_never_negative [OF res] by (simp add: fless_def)
qed

section \<open>The signal aggregator\<close>

text \<open>
  C7. For a signal with fewer than \<open>freq\<close> samples \<^verbatim>\<open>getSignalActivityIndex\<close> returns the
  pair \<open>(0, 0)\<close>, for every noise scalar and either value of the flag; it does not raise.
\<close>

theorem getSignalActivityIndex_short_signal:
  "int (length df) < freq \<Longrightarrow> getSignalActivityIndex df noise freq rel = Inr (Py (Fin 0), 0)"
  by (simp add: getSignalActivityIndex_def)

theorem getSignalActivityIndex_short_signal_witness:
  "int (length [(1, 2, 3), (4, 5, 6) :: real \<times> real \<times> real]) < 30 \<and>
   getSignalActivityIndex [(1, 2, 3), (4, 5, 6)] (Np (Fin 2)) 30 True = Inr (Py (Fin 0), 0)"
  using getSignalActivityIndex_short_signal [of "[(1, 2, 3), (4, 5, 6)]" 30 "Np (Fin 2)" True]
  by simp

text \<open>
  C6. For a positive \<open>freq\<close>, every signal, every noise scalar and either value of the flag,
  \<^verbatim>\<open>getSignalActivityIndex\<close> returns: the scorer returns a score on each of the consecutive
  slices \<open>[i * freq, i * freq + freq)\<close>, \<open>i\<close> from \<open>0\<close> to \<open>floor (len / freq) - 1\<close>; the total
  is the sum of these scores, accumulated in this order from \<open>0\<close>, and the count is
  \<open>floor (len / freq)\<close>. The samples after the last full window do not matter: the signal
  cut after it gives the same result.
\<close>

theorem getSignalActivityIndex_windows:
  "0 < freq \<Longrightarrow>
   \<exists>scores.
     map (\<lambda>w. getActivityIndex w noise rel) (spec_windows df (nat freq)) = map Inr scores \<and>
     getSignalActivityIndex df noise freq rel
       = Inr (foldl sadd (Py (Fin 0)) scores, int (length df div nat freq)) \<and>
     getSignalActivityIndex (take (length df div nat freq * nat freq) df) noise freq rel
       = getSignalActivityIndex df noise freq rel"
proof -
  assume f: "0 < freq"
  obtain scores where
    s1: "map (\<lambda>w. getActivityIndex w noise rel) (spec_windows df (nat freq)) = map Inr scores"
    and s2: "getSignalActivityIndex df noise freq rel
       = Inr (foldl sadd (Py (Fin 0)) scores, int (length df div nat freq))"
    using getSignalActivityIndex_sum [OF f, of noise rel df] by blast
  let ?t = "take (length df div nat freq * nat freq) df"
  obtain scores' where
    t1: "map (\<lambda>w. getActivityIndex w noise rel) (spec_windows ?t (nat freq)) = map Inr scores'"
    and t2: "getSignalActivityIndex ?t noise freq rel
       = Inr (foldl sadd (Py (Fin 0)) scores', int (length ?t div nat freq))"
    using getSignalActivityIndex_sum [OF f, of noise rel ?t] by blast
  have "map Inr scores' = (map Inr scores :: (error + scalar) list)"
    using s1 t1 by (simp add: spec_windows_take)
  then have eq: "scores' = scores"
    by (simp add: inj_map_eq_map)
  have len: "length ?t div nat freq = length df div nat freq"
    using f by (simp add: min_absorb2)
  show ?thesis using s1 s2 t2 eq len by auto
qed

theorem getSignalActivityIndex_windows_witness:
  "(0 :: int) < 2 \<and>
   getSignalActivityIndex [(0, 0, 0), (4, 4, 4), (1, 1, 1), (5, 5, 5), (9, 9, 9)]
       (Np (Fin 4)) 2 False
     = Inr (Py (Fin 4), 2)"
proof -
  let ?df = "[(0, 0, 0), (4, 4, 4), (1, 1, 1), (5, 5, 5), (9, 9, 9)] :: dataframe"
  obtain scores where
    m: "map (\<lambda>w. getActivityIndex w (Np (Fin 4)) False) (spec_windows ?df (nat 2))
          = map Inr scores"
    and r: "getSignalActivityIndex ?df (Np (Fin 4)) 2 False
       = Inr (foldl sadd (Py (Fin 0)) scores, int (length ?df div nat 2))"
    using getSignalActivityIndex_windows [of 2 "Np (Fin 4)" False ?df] by auto
  have w: "spec_windows ?df (nat 2) = [[(0, 0, 0), (4, 4, 4)], [(1, 1, 1), (5, 5, 5)]]"
    by (simp add: spec_windows_def upt_rec)
  have a1: "getActivityIndex [(0, 0, 0), (4, 4, 4)] (Np (Fin 4)) False = Inr (Py (Fin 2))"
    by (simp add: getActivityIndex_def activity_index_def series_var_def series_mean_def
        ssub_def sadd_def sdiv_def wrap_def fsub_def fdiv_def fless_def py_max_def py_sqrt_def
        col_x_def col_y_def col_z_def)
  have a2: "getActivityIndex [(1, 1, 1), (5, 5, 5)] (Np (Fin 4)) False = Inr (Py (Fin 2))"
    by (simp add: getActivityIndex_def activity_index_def series_var_def series_mean_def
        ssub_def sadd_def sdiv_def wrap_def fsub_def fdiv_def fless_def py_max_def py_sqrt_def
        col_x_def col_y_def col_z_def)
  have "map Inr scores = [Inr (Py (Fin 2)), Inr (Py (Fin 2)) :: error + scalar]"
    using m unfolding w by (simp add: a1 a2)
  then have "scores = [Py (Fin 2), Py (Fin 2)]"
    by (auto simp: map_eq_Cons_conv)
  then show ?thesis using r by (simp add: sadd_def wrap_def)
qed

end
